theory Spec2Isabelle
  imports
    Main
    "HOL-Library.Char_ord"
    "HOL-Library.List_Lexorder"
    "HOL-Library.Sublist"
    "HOL-Library.AList"
    "HOL-Library.Word"
begin

section \<open>Context builder of nanobot (nanobot/agent/context.py)\<close>

text \<open>
  A shallow embedding of \<^verbatim>\<open>nanobot/agent/context.py\<close>: the two message mutators, the
  media encoder \<^verbatim>\<open>_build_user_content\<close> and the class \<^verbatim>\<open>ContextBuilder\<close>.
  Python strings are \<^typ>\<open>string\<close>, \<^verbatim>\<open>\n\<close> is written \<open>\<newline>\<close>. Everything the
  code reads from outside (file system, clock, platform, the MIME table, the memory store
  and the skills loader) is a field of one environment record, so that each function is a
  function of its arguments and of that record.
\<close>

subsection \<open>Python values and errors\<close>

text \<open>
  Messages and content blocks are \<^verbatim>\<open>dict[str, Any]\<close>. A dictionary is an association
  list in insertion order; \<open>AList.update\<close> is Python's \<^verbatim>\<open>d[k] = v\<close> (it replaces in
  place, or appends a new key at the end).
\<close>

datatype pyval =
    PNone
  | PStr string
  | PList "pyval list"
  | PDict "(string \<times> pyval) list"

datatype error =
    KeyError string
  | ValueError
  | OSError nat  \<comment> \<open>with its \<^verbatim>\<open>errno\<close>\<close>
  | FileNotFoundError
  | IsADirectoryError
  | PermissionError
  | UnicodeDecodeError

type_synonym bytes = "8 word list"

text \<open>Truthiness of an optional string and of an optional list (\<^verbatim>\<open>if x:\<close>).\<close>

fun truthy :: "'a list option \<Rightarrow> bool" where
  "truthy None = False"
| "truthy (Some xs) = (xs \<noteq> [])"

text \<open>\<^verbatim>\<open>sep.join(parts)\<close>\<close>

fun join :: "string \<Rightarrow> string list \<Rightarrow> string" where
  "join sep [] = []"
| "join sep [x] = x"
| "join sep (x # y # ys) = x @ sep @ join sep (y # ys)"

subsection \<open>The environment\<close>

text \<open>
  A path is either \<^verbatim>\<open>Path(s)\<close> or \<^verbatim>\<open>p / name\<close>; the file system maps paths to
  nodes. A regular file has its bytes, or the error that reading it raises
  (\<^verbatim>\<open>PermissionError\<close>, an I/O error). \<open>StatFails e\<close> is a path on which
  \<^verbatim>\<open>os.stat\<close> raises the \<^verbatim>\<open>OSError\<close> \<open>e\<close>, one that \<^verbatim>\<open>is_file()\<close> does not take
  for absence: a name that is too long, a directory of the path that cannot be searched.
  Opening such a path raises the same error.
\<close>

datatype pypath = Path string | Child pypath string

datatype fs_node =
    RegularFile bytes
  | UnreadableFile error
  | Directory
  | StatFails error

record environment =
  fs :: "pypath \<rightharpoonup> fs_node"
  utf8_decode :: "bytes \<Rightarrow> string option"
    \<comment> \<open>the decoding of \<^verbatim>\<open>read_text(encoding="utf-8")\<close>, \<open>None\<close> where it raises\<close>
  guess_type :: "string \<Rightarrow> error + string option"
    \<comment> \<open>first component of \<^verbatim>\<open>mimetypes.guess_type(path)\<close>, or the error it raises\<close>
  resolve :: "pypath \<Rightarrow> string"
    \<comment> \<open>\<^verbatim>\<open>str(p.expanduser().resolve())\<close>\<close>
  now :: string
    \<comment> \<open>\<^verbatim>\<open>datetime.now().strftime("%Y-%m-%d %H:%M (%A)")\<close>\<close>
  tzname :: string
    \<comment> \<open>\<^verbatim>\<open>time.strftime("%Z")\<close>\<close>
  platform_system :: string
  platform_machine :: string
  python_version :: string
  get_memory_context :: string
    \<comment> \<open>\<^verbatim>\<open>MemoryStore.get_memory_context()\<close>\<close>
  list_skills :: "(string \<times> string) list list"
    \<comment> \<open>\<^verbatim>\<open>SkillsLoader.list_skills()\<close>, a list of dictionaries\<close>
  get_always_skills :: "string list"
  load_skills_for_context :: "string list \<Rightarrow> string"
  build_skills_summary :: string

text \<open>
  \<^verbatim>\<open>exists()\<close> of a bootstrap path. On a path whose stat raises, \<^verbatim>\<open>exists()\<close> raises
  that error itself; here the loader goes on to \<^verbatim>\<open>read_text\<close>, which returns the same
  error, so that the loader has the result of the code.
\<close>

definition path_exists :: "environment \<Rightarrow> pypath \<Rightarrow> bool" where
  "path_exists env p = (fs env p \<noteq> None)"

text \<open>
  \<^verbatim>\<open>is_file()\<close>: false for a missing path and for a directory, true for a regular
  file whether it can be read or not, and the error of a stat that raises.
\<close>

definition is_file :: "environment \<Rightarrow> pypath \<Rightarrow> error + bool" where
  "is_file env p =
     (case fs env p of
        None \<Rightarrow> Inr False
      | Some (RegularFile data) \<Rightarrow> Inr True
      | Some (UnreadableFile e) \<Rightarrow> Inr True
      | Some Directory \<Rightarrow> Inr False
      | Some (StatFails e) \<Rightarrow> Inl e)"

definition read_bytes :: "environment \<Rightarrow> pypath \<Rightarrow> error + bytes" where
  "read_bytes env p =
     (case fs env p of
        None \<Rightarrow> Inl FileNotFoundError
      | Some (RegularFile data) \<Rightarrow> Inr data
      | Some (UnreadableFile e) \<Rightarrow> Inl e
      | Some Directory \<Rightarrow> Inl IsADirectoryError
      | Some (StatFails e) \<Rightarrow> Inl e)"

definition read_text :: "environment \<Rightarrow> pypath \<Rightarrow> error + string" where
  "read_text env p =
     (case read_bytes env p of
        Inl e \<Rightarrow> Inl e
      | Inr data \<Rightarrow>
          (case utf8_decode env data of
             None \<Rightarrow> Inl UnicodeDecodeError
           | Some s \<Rightarrow> Inr s))"

subsection \<open>Message mutators\<close>

definition add_assistant_message ::
  "pyval list \<Rightarrow> string option \<Rightarrow> pyval list option \<Rightarrow> string option \<Rightarrow> pyval list" where
  "add_assistant_message messages content tool_calls reasoning_content =
     (let msg = [(''role'', PStr ''assistant''),
                 (''content'', PStr (if truthy content then the content else ''''))];
          msg = (if truthy tool_calls
                 then AList.update ''tool_calls'' (PList (the tool_calls)) msg else msg);
          msg = (if truthy reasoning_content
                 then AList.update ''reasoning_content'' (PStr (the reasoning_content)) msg
                 else msg)
      in messages @ [PDict msg])"

definition add_tool_result ::
  "pyval list \<Rightarrow> string \<Rightarrow> string \<Rightarrow> string \<Rightarrow> pyval list" where
  "add_tool_result messages tool_call_id tool_name result =
     messages @ [PDict [(''role'', PStr ''tool''),
                        (''tool_call_id'', PStr tool_call_id),
                        (''name'', PStr tool_name),
                        (''content'', PStr result)]]"

subsection \<open>Media encoder\<close>

text \<open>
  \<^verbatim>\<open>base64.b64encode(data).decode()\<close> of the standard library: three bytes give four
  characters of the alphabet, a last group of one or two bytes is padded with \<open>=\<close>.
\<close>

definition b64_alphabet :: string where
  "b64_alphabet = ''ABCDEFGHIJKLMNOPQRSTUVWXYZabcdefghijklmnopqrstuvwxyz0123456789+/''"

definition b64_char :: "nat \<Rightarrow> char" where
  "b64_char n = b64_alphabet ! (n mod 64)"

fun b64encode :: "bytes \<Rightarrow> string" where
  "b64encode [] = []"
| "b64encode [a] =
     [b64_char (unat a div 4), b64_char (unat a mod 4 * 16), CHR ''='', CHR ''='']"
| "b64encode [a, b] =
     [b64_char (unat a div 4), b64_char (unat a mod 4 * 16 + unat b div 16),
      b64_char (unat b mod 16 * 4), CHR ''='']"
| "b64encode (a # b # c # rest) =
     [b64_char (unat a div 4), b64_char (unat a mod 4 * 16 + unat b div 16),
      b64_char (unat b mod 16 * 4 + unat c div 64), b64_char (unat c mod 64)]
     @ b64encode rest"

text \<open>
  The loop of \<^verbatim>\<open>_build_user_content\<close> over \<^verbatim>\<open>media\<close>, with the list
  \<^verbatim>\<open>images\<close> built so far. Each round calls \<^verbatim>\<open>mimetypes.guess_type(path)\<close> first,
  then \<^verbatim>\<open>p.is_file()\<close>, and \<^verbatim>\<open>p.read_bytes()\<close> for a path that is kept; the first
  call that raises ends the loop with its error. \<^verbatim>\<open>not mime\<close> holds for \<^verbatim>\<open>None\<close>
  and for the empty string; \<^verbatim>\<open>mime.startswith("image/")\<close> is \<open>prefix\<close>.
\<close>

fun images_loop :: "environment \<Rightarrow> string list \<Rightarrow> pyval list \<Rightarrow> error + pyval list" where
  "images_loop env [] images = Inr images"
| "images_loop env (path # rest) images =
     (let p = Path path in
      case guess_type env path of
        Inl e \<Rightarrow> Inl e
      | Inr mime \<Rightarrow>
          (case is_file env p of
             Inl e \<Rightarrow> Inl e
           | Inr regular \<Rightarrow>
               if \<not> regular \<or> \<not> truthy mime \<or> \<not> prefix ''image/'' (the mime)
               then images_loop env rest images
               else
                 (case read_bytes env p of
                    Inl e \<Rightarrow> Inl e
                  | Inr data \<Rightarrow>
                      (let b64 = b64encode data in
                       images_loop env rest
                         (images @
                          [PDict [(''type'', PStr ''image_url''),
                                  (''image_url'',
                                   PDict [(''url'',
                                           PStr (''data:'' @ the mime @ '';base64,''
                                                 @ b64))])]])))))"

definition build_user_content ::
  "environment \<Rightarrow> string \<Rightarrow> string list option \<Rightarrow> error + pyval" where
  "build_user_content env text media =
     (if \<not> truthy media then Inr (PStr text)
      else
        (case images_loop env (the media) [] of
           Inl e \<Rightarrow> Inl e
         | Inr images \<Rightarrow>
             if images = [] then Inr (PStr text)
             else Inr (PList (images @ [PDict [(''type'', PStr ''text''),
                                               (''text'', PStr text)]]))))"

subsection \<open>The context builder\<close>

record ContextBuilder =
  workspace :: pypath
  no_xml_skills :: bool

definition BOOTSTRAP_FILES :: "string list" where
  "BOOTSTRAP_FILES = [''AGENTS.md'', ''SOUL.md'', ''USER.md'']"

definition get_identity :: "environment \<Rightarrow> ContextBuilder \<Rightarrow> string" where
  "get_identity env self =
     (let tz = (if tzname env \<noteq> [] then tzname env else ''UTC'');
          workspace_path = resolve env (workspace self);
          system = platform_system env;
          runtime = (if system = ''Darwin'' then ''macOS'' else system) @ '' ''
                    @ platform_machine env @ '', Python '' @ python_version env
      in ''#\<newline>\<newline>## Current Time\<newline>'' @ now env @ '' ('' @ tz @ '')\<newline>''
         @ ''\<newline>## Runtime\<newline>'' @ runtime @ ''\<newline>''
         @ ''\<newline>## Workspace\<newline>''
         @ ''Your workspace is at: '' @ workspace_path @ ''\<newline>''
         @ ''- Long-term memory: '' @ workspace_path @ ''/memory/MEMORY.md\<newline>''
         @ ''- History log: '' @ workspace_path
         @ ''/memory/HISTORY.md (grep-searchable)\<newline>''
         @ ''- Custom skills: '' @ workspace_path @ ''/skills/{skill-name}/SKILL.md\<newline>''
         @ ''When remembering something important, write to '' @ workspace_path
         @ ''/memory/MEMORY.md\<newline>''
         @ ''To recall past events, grep '' @ workspace_path @ ''/memory/HISTORY.md'')"

text \<open>The loop of \<^verbatim>\<open>_load_bootstrap_files\<close> over the file names, with \<^verbatim>\<open>parts\<close>.\<close>

fun bootstrap_loop ::
  "environment \<Rightarrow> ContextBuilder \<Rightarrow> string list \<Rightarrow> string list \<Rightarrow> error + string list" where
  "bootstrap_loop env self [] parts = Inr parts"
| "bootstrap_loop env self (filename # rest) parts =
     (let file_path = Child (workspace self) filename in
      if path_exists env file_path
      then
        (case read_text env file_path of
           Inl e \<Rightarrow> Inl e
         | Inr content \<Rightarrow>
             bootstrap_loop env self rest
               (parts @ [''## '' @ filename @ ''\<newline>\<newline>'' @ content]))
      else bootstrap_loop env self rest parts)"

definition load_bootstrap_files :: "environment \<Rightarrow> ContextBuilder \<Rightarrow> error + string" where
  "load_bootstrap_files env self =
     (case bootstrap_loop env self BOOTSTRAP_FILES [] of
        Inl e \<Rightarrow> Inl e
      | Inr parts \<Rightarrow> Inr (if parts \<noteq> [] then join ''\<newline>\<newline>'' parts else []))"

text \<open>
  An element of \<^verbatim>\<open>skills_list\<close> is a dictionary or a string:
  \<^verbatim>\<open>s["name"] if isinstance(s, dict) else s\<close>. A dictionary without the key raises.
\<close>

datatype skill_ref = SkillDict "(string \<times> string) list" | SkillName string

fun skill_names_of :: "skill_ref list \<Rightarrow> error + string list" where
  "skill_names_of [] = Inr []"
| "skill_names_of (SkillName s # rest) =
     (case skill_names_of rest of Inl e \<Rightarrow> Inl e | Inr names \<Rightarrow> Inr (s # names))"
| "skill_names_of (SkillDict d # rest) =
     (case map_of d ''name'' of
        None \<Rightarrow> Inl (KeyError ''name'')
      | Some n \<Rightarrow>
          (case skill_names_of rest of Inl e \<Rightarrow> Inl e | Inr names \<Rightarrow> Inr (n # names)))"

text \<open>The \<^verbatim>\<open>for skill_name in names\<close> loop of the compact branch.\<close>

fun load_details_loop :: "string \<Rightarrow> string list \<Rightarrow> string list \<Rightarrow> string list" where
  "load_details_loop workspace_path [] parts = parts"
| "load_details_loop workspace_path (skill_name # rest) parts =
     load_details_loop workspace_path rest
       (parts @ [''Load details with read_file: '' @ workspace_path @ ''/skills/''
                 @ skill_name @ ''/SKILL.md\<newline>''])"

text \<open>The branch \<^verbatim>\<open>if self.no_xml_skills:\<close>; it returns the extended \<^verbatim>\<open>parts\<close>.\<close>

definition compact_skills ::
  "environment \<Rightarrow> ContextBuilder \<Rightarrow> skill_ref list option \<Rightarrow> string list
     \<Rightarrow> error + string list" where
  "compact_skills env self skill_names parts =
     (let skills_list = (if truthy skill_names then the skill_names
                         else map SkillDict (list_skills env))
      in case skill_names_of skills_list of
           Inl e \<Rightarrow> Inl e
         | Inr names \<Rightarrow>
             (let names = sorted_list_of_set (set names) in
              if names \<noteq> []
              then
                (let workspace_path = resolve env (workspace self);
                     parts = parts @ [''# Skills\<newline>\<newline>'' @ ''Available skills: ''
                                      @ join '', '' names @ ''\<newline>'']
                 in Inr (load_details_loop workspace_path names parts))
              else Inr parts))"

text \<open>The \<^verbatim>\<open>else\<close> branch (progressive loading).\<close>

definition progressive_skills :: "environment \<Rightarrow> string list \<Rightarrow> string list" where
  \<open>progressive_skills env parts =
     (let always_skills = get_always_skills env;
          parts =
            (if always_skills \<noteq> []
             then
               (let always_content = load_skills_for_context env always_skills in
                if always_content \<noteq> []
                then parts @ [''# Active Skills\<newline>\<newline>'' @ always_content]
                else parts)
             else parts);
          skills_summary = build_skills_summary env
      in if skills_summary \<noteq> []
         then parts @
           [''# Skills\<newline>    \<newline>''
            @ ''    The following skills extend your capabilities. To use a skill, ''
            @ ''read its SKILL.md file using the read_file tool.\<newline>''
            @ ''    Skills with available="false" need dependencies installed first ''
            @ ''- you can try installing them with apt/brew.\<newline>''
            @ ''    \<newline>    '' @ skills_summary]
         else parts)\<close>

definition build_system_prompt ::
  "environment \<Rightarrow> ContextBuilder \<Rightarrow> skill_ref list option \<Rightarrow> error + string" where
  "build_system_prompt env self skill_names =
     (let parts = [get_identity env self] in
      case load_bootstrap_files env self of
        Inl e \<Rightarrow> Inl e
      | Inr bootstrap \<Rightarrow>
          (let parts = (if bootstrap \<noteq> [] then parts @ [bootstrap] else parts);
               memory = get_memory_context env;
               parts = (if memory \<noteq> []
                        then parts @ [''# Memory\<newline>\<newline>'' @ memory] else parts)
           in case (if no_xml_skills self then compact_skills env self skill_names parts
                    else Inr (progressive_skills env parts)) of
                Inl e \<Rightarrow> Inl e
              | Inr parts \<Rightarrow> Inr (join ''\<newline>\<newline>---\<newline>\<newline>'' parts)))"

definition build_messages ::
  "environment \<Rightarrow> ContextBuilder \<Rightarrow> pyval list \<Rightarrow> string \<Rightarrow> skill_ref list option
     \<Rightarrow> string list option \<Rightarrow> string option \<Rightarrow> string option \<Rightarrow> error + pyval list" where
  "build_messages env self history current_message skill_names media channel chat_id =
     (let messages = [] in
      case build_system_prompt env self skill_names of
        Inl e \<Rightarrow> Inl e
      | Inr system_prompt \<Rightarrow>
          (let system_prompt =
                 (if truthy channel \<and> truthy chat_id
                  then system_prompt @ ''\<newline>\<newline>## Current Session\<newline>Channel: ''
                       @ the channel @ ''\<newline>Chat ID: '' @ the chat_id
                  else system_prompt);
               messages = messages @ [PDict [(''role'', PStr ''system''),
                                             (''content'', PStr system_prompt)]];
               messages = messages @ history
           in case build_user_content env current_message media of
                Inl e \<Rightarrow> Inl e
              | Inr user_content \<Rightarrow>
                  Inr (messages @ [PDict [(''role'', PStr ''user''),
                                          (''content'', user_content)]])))"

section \<open>Vocabulary of the specification\<close>

text \<open>
  The definitions of this section are not part of the program: they name what the
  specification talks about, and the theorems compare them with the code.
\<close>

text \<open>
  A media path passes the filter of the encoder: it is a regular file and its guessed
  MIME type starts with \<^verbatim>\<open>image/\<close>.
\<close>

definition survives :: "environment \<Rightarrow> string \<Rightarrow> bool" where
  "survives env path =
     (is_file env (Path path) = Inr True \<and>
      (case guess_type env path of
         Inr (Some mime) \<Rightarrow> prefix ''image/'' mime
       | _ \<Rightarrow> False))"

text \<open>
  No call that the encoder makes for the path raises: guessing the MIME type, the test
  for a regular file and, for a path that passes the filter, reading the file.
\<close>

definition path_calls_succeed :: "environment \<Rightarrow> string \<Rightarrow> bool" where
  "path_calls_succeed env path =
     (case guess_type env path of
        Inl e \<Rightarrow> False
      | Inr mime \<Rightarrow>
          (case is_file env (Path path) of
             Inl e \<Rightarrow> False
           | Inr regular \<Rightarrow>
               (if survives env path
                then (case read_bytes env (Path path) of Inl e \<Rightarrow> False | Inr data \<Rightarrow> True)
                else True)))"

definition media_calls_succeed :: "environment \<Rightarrow> string list option \<Rightarrow> bool" where
  "media_calls_succeed env media =
     (case media of None \<Rightarrow> True | Some ms \<Rightarrow> list_all (path_calls_succeed env) ms)"

text \<open>The image block of a path: a data URI of its MIME type and its bytes in base64.\<close>

definition image_block :: "environment \<Rightarrow> string \<Rightarrow> pyval" where
  "image_block env path =
     (case (guess_type env path, fs env (Path path)) of
        (Inr (Some mime), Some (RegularFile data)) \<Rightarrow>
          PDict [(''type'', PStr ''image_url''),
                 (''image_url'',
                  PDict [(''url'', PStr (''data:'' @ mime @ '';base64,'' @ b64encode data))])]
      | _ \<Rightarrow> PNone)"

definition text_block :: "string \<Rightarrow> pyval" where
  "text_block text = PDict [(''type'', PStr ''text''), (''text'', PStr text)]"

text \<open>
  The media-encoded content of a text: the text itself when the media are absent or no
  path passes the filter, else the image blocks of the paths that pass, in order, and
  one text block.
\<close>

definition encoded_content :: "environment \<Rightarrow> string \<Rightarrow> string list option \<Rightarrow> pyval" where
  "encoded_content env text media =
     (case media of
        None \<Rightarrow> PStr text
      | Some ms \<Rightarrow>
          if filter (survives env) ms = [] then PStr text
          else PList (map (image_block env) (filter (survives env) ms) @ [text_block text]))"

definition system_message :: "string \<Rightarrow> pyval" where
  "system_message text = PDict [(''role'', PStr ''system''), (''content'', PStr text)]"

definition user_message :: "pyval \<Rightarrow> pyval" where
  "user_message content = PDict [(''role'', PStr ''user''), (''content'', content)]"

text \<open>
  The session footer: present when channel and chat id are both given and both
  non-empty, empty otherwise.
\<close>

definition session_footer :: "string option \<Rightarrow> string option \<Rightarrow> string" where
  "session_footer channel chat_id =
     (case (channel, chat_id) of
        (Some c, Some i) \<Rightarrow>
          if c \<noteq> [] \<and> i \<noteq> []
          then ''\<newline>\<newline>## Current Session\<newline>Channel: '' @ c @ ''\<newline>Chat ID: '' @ i
          else []
      | _ \<Rightarrow> [])"

definition SEPARATOR :: string where
  "SEPARATOR = ''\<newline>\<newline>---\<newline>\<newline>''"

text \<open>The section of one bootstrap file, and the bootstrap files that exist, in order.\<close>

definition bootstrap_section :: "environment \<Rightarrow> ContextBuilder \<Rightarrow> string \<Rightarrow> string" where
  "bootstrap_section env self filename =
     ''## '' @ filename @ ''\<newline>\<newline>''
     @ (case read_text env (Child (workspace self) filename) of
          Inl e \<Rightarrow> []
        | Inr content \<Rightarrow> content)"

definition bootstrap_present :: "environment \<Rightarrow> ContextBuilder \<Rightarrow> string list" where
  "bootstrap_present env self =
     filter (\<lambda>filename. path_exists env (Child (workspace self) filename)) BOOTSTRAP_FILES"

text \<open>The parts that the memory step and the skills step add to the prompt.\<close>

definition memory_parts :: "environment \<Rightarrow> string list" where
  "memory_parts env =
     (if get_memory_context env \<noteq> [] then [''# Memory\<newline>\<newline>'' @ get_memory_context env]
      else [])"

definition skills_parts ::
  "environment \<Rightarrow> ContextBuilder \<Rightarrow> skill_ref list option \<Rightarrow> error + string list" where
  "skills_parts env self skill_names =
     (if no_xml_skills self then compact_skills env self skill_names []
      else Inr (progressive_skills env []))"

text \<open>
  The skill list of compact mode: the argument when it is given and non-empty, the
  catalog of the skills loader otherwise.
\<close>

definition chosen_skills :: "environment \<Rightarrow> skill_ref list option \<Rightarrow> skill_ref list" where
  "chosen_skills env skill_names =
     (case skill_names of
        None \<Rightarrow> map SkillDict (list_skills env)
      | Some [] \<Rightarrow> map SkillDict (list_skills env)
      | Some (s # rest) \<Rightarrow> s # rest)"

definition names_line :: "string list \<Rightarrow> string" where
  "names_line names = ''# Skills\<newline>\<newline>Available skills: '' @ join '', '' names @ ''\<newline>''"

definition load_line :: "string \<Rightarrow> string \<Rightarrow> string" where
  "load_line workspace_path name =
     ''Load details with read_file: '' @ workspace_path @ ''/skills/'' @ name @ ''/SKILL.md\<newline>''"

subsection \<open>Example environments\<close>

text \<open>
  \<open>plain_env\<close>: an empty workspace, no memory, one skill in the catalog, on a Mac;
  \<^verbatim>\<open>mimetypes.guess_type\<close> raises \<^verbatim>\<open>ValueError\<close> on \<^verbatim>\<open>//[.png\<close>, which it parses as
  a URL with a broken host. \<open>long_name\<close> is a file name of 304 characters, longer than
  a name may be; \<open>faulty_env\<close> is \<open>example_env\<close> where the stat of that name raises
  \<^verbatim>\<open>OSError\<close> 36 and where \<^verbatim>\<open>locked.png\<close> is a regular file that cannot be read.
  \<open>example_env\<close> adds a bootstrap file, an image, a directory named like an image and
  a memory text. \<open>later_env\<close> is \<open>plain_env\<close> one minute later; \<open>other_media_env\<close>
  is \<open>example_env\<close> with other media files and another MIME table; in \<open>dir_env\<close>
  the workspace has a directory named \<^verbatim>\<open>AGENTS.md\<close>.
\<close>

definition long_name :: string where
  "long_name = replicate 300 (CHR ''x'') @ ''.png''"

definition plain_env :: environment where
  "plain_env =
     \<lparr> fs = Map.empty,
       utf8_decode = (\<lambda>data. if data = [104, 105] then Some ''hi'' else None),
       guess_type =
         (\<lambda>path. if path = ''//[.png'' then Inl ValueError
                  else if path \<in> {''a.png'', ''dir.png'', ''gone.png'', ''locked.png'', long_name}
                  then Inr (Some ''image/png'')
                  else if path = ''b.txt'' then Inr (Some ''text/plain'') else Inr None),
       resolve = (\<lambda>p. ''/ws''),
       now = ''2026-01-01 10:00 (Thursday)'',
       tzname = '''',
       platform_system = ''Darwin'',
       platform_machine = ''arm64'',
       python_version = ''3.12.1'',
       get_memory_context = '''',
       list_skills = [[(''name'', ''zeta''), (''path'', ''/ws/skills/zeta/SKILL.md'')]],
       get_always_skills = [],
       load_skills_for_context = (\<lambda>names. ''''),
       build_skills_summary = '''' \<rparr>"

definition example_env :: environment where
  "example_env =
     plain_env
       \<lparr> fs := [Child (Path ''/ws'') ''SOUL.md'' \<mapsto> RegularFile [104, 105],
                Path ''a.png'' \<mapsto> RegularFile [77, 97, 110, 77],
                Path ''dir.png'' \<mapsto> Directory],
         get_memory_context := ''likes tea'' \<rparr>"

definition faulty_env :: environment where
  "faulty_env =
     example_env
       \<lparr> fs := (fs example_env)(Path long_name \<mapsto> StatFails (OSError 36),
                                  Path ''locked.png'' \<mapsto> UnreadableFile PermissionError) \<rparr>"

definition later_env :: environment where
  "later_env = plain_env \<lparr> now := ''2026-01-01 10:01 (Thursday)'' \<rparr>"

definition other_media_env :: environment where
  "other_media_env =
     example_env
       \<lparr> fs := (fs example_env)(Path ''a.png'' := None, Path ''c.jpg'' \<mapsto> Directory),
         guess_type := (\<lambda>path. Inr None) \<rparr>"

definition dir_env :: environment where
  "dir_env = plain_env \<lparr> fs := [Child (Path ''/ws'') ''AGENTS.md'' \<mapsto> Directory] \<rparr>"

definition progressive_builder :: ContextBuilder where
  "progressive_builder = \<lparr> workspace = Path ''/ws'', no_xml_skills = False \<rparr>"

definition compact_builder :: ContextBuilder where
  "compact_builder = \<lparr> workspace = Path ''/ws'', no_xml_skills = True \<rparr>"

section \<open>The loops in closed form\<close>

lemma read_bytes_Inr_iff:
  "read_bytes env p = Inr data \<longleftrightarrow> fs env p = Some (RegularFile data)"
  by (auto simp: read_bytes_def split: option.splits fs_node.splits)

lemma path_calls_succeedD:
  assumes "path_calls_succeed env path"
  shows "\<exists>mime regular. guess_type env path = Inr mime
           \<and> is_file env (Path path) = Inr regular
           \<and> (survives env path \<longrightarrow> (\<exists>data. read_bytes env (Path path) = Inr data))"
  using assms
  by (auto simp: path_calls_succeed_def split: sum.splits if_splits)

lemma images_loop_eq:
  assumes "list_all (path_calls_succeed env) ms"
  shows "images_loop env ms acc = Inr (acc @ map (image_block env) (filter (survives env) ms))"
  using assms
proof (induction ms arbitrary: acc)
  case Nil
  then show ?case by simp
next
  case (Cons path rest)
  then have ok: "path_calls_succeed env path"
    and IH: "\<And>acc. images_loop env rest acc
               = Inr (acc @ map (image_block env) (filter (survives env) rest))"
    by simp_all
  from ok obtain mime regular where g: "guess_type env path = Inr mime"
    and i: "is_file env (Path path) = Inr regular"
    and r: "survives env path \<Longrightarrow> \<exists>data. read_bytes env (Path path) = Inr data"
    using path_calls_succeedD by blast
  show ?case
  proof (cases "survives env path")
    case True
    with g i obtain m where m: "mime = Some m" "prefix ''image/'' m" and reg: "regular"
      by (auto simp: survives_def split: option.splits)
    from m have ne: "m \<noteq> []" by auto
    from r True obtain data where d: "read_bytes env (Path path) = Inr data" by blast
    then have f: "fs env (Path path) = Some (RegularFile data)"
      by (simp add: read_bytes_Inr_iff)
    show ?thesis
      using True g i m reg ne d f
      by (simp add: Let_def image_block_def IH)
  next
    case False
    with g i have "\<not> regular \<or> \<not> truthy mime \<or> \<not> prefix ''image/'' (the mime)"
      by (cases mime) (auto simp: survives_def)
    then show ?thesis
      using False g i by (simp add: Let_def IH)
  qed
qed

lemma images_loop_error:
  assumes "\<not> list_all (path_calls_succeed env) ms"
  shows "\<exists>e. images_loop env ms acc = Inl e"
  using assms
proof (induction ms arbitrary: acc)
  case Nil
  then show ?case by simp
next
  case (Cons path rest)
  show ?case
  proof (cases "path_calls_succeed env path")
    case True
    with Cons.prems have "\<not> list_all (path_calls_succeed env) rest" by simp
    then have IH: "\<And>acc. \<exists>e. images_loop env rest acc = Inl e" by (rule Cons.IH)
    from True obtain mime regular where g: "guess_type env path = Inr mime"
      and i: "is_file env (Path path) = Inr regular"
      and r: "survives env path \<Longrightarrow> \<exists>data. read_bytes env (Path path) = Inr data"
      using path_calls_succeedD by blast
    show ?thesis
    proof (cases "survives env path")
      case True
      with g i obtain m where m: "mime = Some m" "prefix ''image/'' m" and reg: "regular"
        by (auto simp: survives_def split: option.splits)
      from m have ne: "m \<noteq> []" by auto
      from r True obtain data where d: "read_bytes env (Path path) = Inr data" by blast
      show ?thesis
        using g i m reg ne d IH by (simp add: Let_def)
    next
      case False
      with g i have "\<not> regular \<or> \<not> truthy mime \<or> \<not> prefix ''image/'' (the mime)"
        by (cases mime) (auto simp: survives_def)
      then show ?thesis
        using g i IH by (simp add: Let_def)
    qed
  next
    case False
    then show ?thesis
      by (auto simp: path_calls_succeed_def survives_def Let_def
            split: sum.splits option.splits if_splits)
  qed
qed

lemma build_user_content_eq:
  assumes "media_calls_succeed env media"
  shows "build_user_content env text media = Inr (encoded_content env text media)"
proof (cases media)
  case None
  then show ?thesis by (simp add: build_user_content_def encoded_content_def)
next
  case (Some ms)
  with assms have "list_all (path_calls_succeed env) ms"
    by (simp add: media_calls_succeed_def)
  then have "images_loop env ms [] = Inr (map (image_block env) (filter (survives env) ms))"
    by (simp add: images_loop_eq)
  with Some show ?thesis
    by (auto simp: build_user_content_def encoded_content_def text_block_def)
qed

lemma build_user_content_error:
  assumes "\<not> media_calls_succeed env media"
  shows "\<exists>e. build_user_content env text media = Inl e"
proof -
  from assms obtain ms where ms: "media = Some ms" "\<not> list_all (path_calls_succeed env) ms"
    by (cases media) (auto simp: media_calls_succeed_def)
  then have "ms \<noteq> []" by auto
  moreover from ms obtain e where "images_loop env ms [] = Inl e"
    using images_loop_error by blast
  ultimately show ?thesis using ms by (auto simp: build_user_content_def)
qed

text \<open>The encoder returns exactly when none of its calls raises.\<close>

lemma build_user_content_returns_iff:
  "(\<exists>uc. build_user_content env text media = Inr uc) \<longleftrightarrow> media_calls_succeed env media"
proof
  assume "\<exists>uc. build_user_content env text media = Inr uc"
  then show "media_calls_succeed env media"
    using build_user_content_error [of env media] by (metis Inl_Inr_False)
next
  assume "media_calls_succeed env media"
  then show "\<exists>uc. build_user_content env text media = Inr uc"
    by (simp add: build_user_content_eq)
qed

lemma survivor_block:
  assumes "survives env path" and "path_calls_succeed env path"
  shows "\<exists>mime data. guess_type env path = Inr (Some mime) \<and> prefix ''image/'' mime
           \<and> fs env (Path path) = Some (RegularFile data)
           \<and> image_block env path
               = PDict [(''type'', PStr ''image_url''),
                        (''image_url'',
                         PDict [(''url'',
                                 PStr (''data:'' @ mime @ '';base64,'' @ b64encode data))])]"
proof -
  from assms(1) obtain mime where m: "guess_type env path = Inr (Some mime)"
    "prefix ''image/'' mime"
    by (auto simp: survives_def split: sum.splits option.splits)
  from assms obtain data where "read_bytes env (Path path) = Inr data"
    using path_calls_succeedD by blast
  then have "fs env (Path path) = Some (RegularFile data)" by (simp add: read_bytes_Inr_iff)
  with m show ?thesis by (simp add: image_block_def)
qed

lemma load_details_loop_eq:
  "load_details_loop wp names parts = parts @ map (load_line wp) names"
  by (induction names arbitrary: parts) (simp_all add: load_line_def)

lemma bootstrap_loop_eq:
  assumes "\<forall>f\<in>set names. path_exists env (Child (workspace self) f)
             \<longrightarrow> (\<exists>c. read_text env (Child (workspace self) f) = Inr c)"
  shows "bootstrap_loop env self names parts =
           Inr (parts @ map (bootstrap_section env self)
                          (filter (\<lambda>f. path_exists env (Child (workspace self) f)) names))"
  using assms
proof (induction names arbitrary: parts)
  case Nil
  then show ?case by simp
next
  case (Cons f rest)
  have rest: "\<forall>f\<in>set rest. path_exists env (Child (workspace self) f)
             \<longrightarrow> (\<exists>c. read_text env (Child (workspace self) f) = Inr c)"
    using Cons.prems by simp
  show ?case
  proof (cases "path_exists env (Child (workspace self) f)")
    case True
    with Cons.prems obtain c where c: "read_text env (Child (workspace self) f) = Inr c"
      by auto
    from Cons.IH [OF rest] True c show ?thesis
      by (simp add: Let_def bootstrap_section_def)
  next
    case False
    from Cons.IH [OF rest] False show ?thesis
      by (simp add: Let_def)
  qed
qed

lemma bootstrap_loop_cong:
  assumes "\<forall>f\<in>set names. fs e1 (Child (workspace self) f) = fs e2 (Child (workspace self) f)"
    and "utf8_decode e1 = utf8_decode e2"
  shows "bootstrap_loop e1 self names parts = bootstrap_loop e2 self names parts"
  using assms(1)
proof (induction names arbitrary: parts)
  case Nil
  then show ?case by simp
next
  case (Cons f rest)
  then have h: "fs e1 (Child (workspace self) f) = fs e2 (Child (workspace self) f)"
    and r: "\<And>parts. bootstrap_loop e1 self rest parts = bootstrap_loop e2 self rest parts"
    by simp_all
  show ?case
    unfolding bootstrap_loop.simps Let_def path_exists_def read_text_def read_bytes_def h r
      assms(2)
    by (rule refl)
qed

subsection \<open>Joining\<close>

lemma join_Nil_if: "(if parts \<noteq> [] then join sep parts else []) = join sep parts"
  by (cases parts) simp_all

lemma prefix_join: "prefix x (join sep (x # xs))"
  by (cases xs) simp_all

lemma join_Cons_nonempty: "x \<noteq> [] \<Longrightarrow> join sep (x # xs) \<noteq> []"
  by (cases xs) simp_all

lemma join_sections_empty_iff:
  "join sep (map (bootstrap_section env self) names) = [] \<longleftrightarrow> names = []"
proof (cases names)
  case Nil
  then show ?thesis by simp
next
  case (Cons f rest)
  have "bootstrap_section env self f \<noteq> []" by (simp add: bootstrap_section_def)
  then show ?thesis using Cons by (simp add: join_Cons_nonempty)
qed

lemma get_identity_nonempty: "get_identity env self \<noteq> []"
  by (simp add: get_identity_def Let_def)

subsection \<open>The prompt as a list of parts\<close>

lemma load_bootstrap_files_eq:
  assumes "\<forall>f\<in>set BOOTSTRAP_FILES. path_exists env (Child (workspace self) f)
             \<longrightarrow> (\<exists>c. read_text env (Child (workspace self) f) = Inr c)"
  shows "load_bootstrap_files env self =
           Inr (join ''\<newline>\<newline>'' (map (bootstrap_section env self) (bootstrap_present env self)))"
  using bootstrap_loop_eq [OF assms, of "[]"]
  by (simp add: load_bootstrap_files_def bootstrap_present_def join_Nil_if
        del: bootstrap_loop.simps)

lemma compact_skills_eq:
  "compact_skills env self skill_names parts =
     (case skill_names_of (chosen_skills env skill_names) of
        Inl e \<Rightarrow> Inl e
      | Inr ns \<Rightarrow>
          Inr (parts @
               (if set ns = {} then []
                else names_line (sorted_list_of_set (set ns))
                     # map (load_line (resolve env (workspace self)))
                         (sorted_list_of_set (set ns)))))"
proof -
  have ch: "(if truthy skill_names then the skill_names else map SkillDict (list_skills env))
            = chosen_skills env skill_names"
    by (cases skill_names) (auto simp: chosen_skills_def split: list.splits)
  show ?thesis
    unfolding compact_skills_def ch
    by (simp add: Let_def load_details_loop_eq names_line_def split: sum.splits)
qed

lemma progressive_skills_append:
  "progressive_skills env parts = parts @ progressive_skills env []"
  by (simp add: progressive_skills_def Let_def)

lemma skills_stage_eq:
  "(if no_xml_skills self then compact_skills env self skill_names parts
    else Inr (progressive_skills env parts))
   = (case skills_parts env self skill_names of
        Inl e \<Rightarrow> Inl e
      | Inr sk \<Rightarrow> Inr (parts @ sk))"
  using progressive_skills_append [of env parts]
  by (simp add: skills_parts_def compact_skills_eq [of env self skill_names parts]
        compact_skills_eq [of env self skill_names "[]"] split: sum.splits)

lemma build_system_prompt_eq:
  "build_system_prompt env self skill_names =
     (case load_bootstrap_files env self of
        Inl e \<Rightarrow> Inl e
      | Inr bootstrap \<Rightarrow>
          (case skills_parts env self skill_names of
             Inl e \<Rightarrow> Inl e
           | Inr sk \<Rightarrow>
               Inr (join SEPARATOR
                      (get_identity env self # (if bootstrap \<noteq> [] then [bootstrap] else [])
                       @ memory_parts env @ sk))))"
  unfolding build_system_prompt_def Let_def skills_stage_eq SEPARATOR_def memory_parts_def
  by (simp split: sum.splits)

lemma build_messages_eq:
  "build_messages env self history current_message skill_names media channel chat_id =
     (case build_system_prompt env self skill_names of
        Inl e \<Rightarrow> Inl e
      | Inr sp \<Rightarrow>
          (case build_user_content env current_message media of
             Inl e \<Rightarrow> Inl e
           | Inr uc \<Rightarrow>
               Inr (system_message (sp @ session_footer channel chat_id) # history
                    @ [user_message uc])))"
  by (cases channel; cases chat_id)
     (auto simp: build_messages_def Let_def session_footer_def system_message_def
        user_message_def split: sum.splits)

text \<open>
  The prompt is returned exactly when the bootstrap files load and the names of the skill
  list resolve; an error of either step is the result of the call.
\<close>

lemma build_system_prompt_returns:
  "(\<exists>out. build_system_prompt env self skill_names = Inr out)
     \<longleftrightarrow> (\<exists>bootstrap. load_bootstrap_files env self = Inr bootstrap)
          \<and> (\<exists>sk. skills_parts env self skill_names = Inr sk)"
  by (auto simp: build_system_prompt_eq split: sum.splits)

lemma progressive_skills_parts_total:
  "\<not> no_xml_skills self \<Longrightarrow> \<exists>sk. skills_parts env self skill_names = Inr sk"
  by (simp add: skills_parts_def)

subsection \<open>The examples, evaluated\<close>

text \<open>
  \<^verbatim>\<open>exists()\<close> holds for a directory and \<^verbatim>\<open>read_text\<close> raises on it; a catalog
  dictionary without \<^verbatim>\<open>name\<close> raises \<^verbatim>\<open>KeyError\<close>.
\<close>

lemma directory_bootstrap:
  "load_bootstrap_files dir_env progressive_builder = Inl IsADirectoryError"
  by (simp add: load_bootstrap_files_def BOOTSTRAP_FILES_def path_exists_def read_text_def
        read_bytes_def dir_env_def plain_env_def progressive_builder_def)

lemma stat_fails_bootstrap:
  assumes "fs env (Child (workspace self) ''AGENTS.md'') = Some (StatFails e)"
  shows "load_bootstrap_files env self = Inl e"
  using assms
  by (simp add: load_bootstrap_files_def BOOTSTRAP_FILES_def path_exists_def read_text_def
        read_bytes_def)

lemma nameless_skill:
  "skill_names_of [SkillName ''a'', SkillDict [(''path'', ''/x'')]] = Inl (KeyError ''name'')"
  by simp


lemma plain_bootstrap: "load_bootstrap_files plain_env self = Inr []"
  by (simp add: load_bootstrap_files_def BOOTSTRAP_FILES_def path_exists_def plain_env_def)

lemma plain_memory: "memory_parts plain_env = []"
  by (simp add: memory_parts_def plain_env_def)

lemma plain_progressive_skills: "skills_parts plain_env progressive_builder None = Inr []"
  by (simp add: skills_parts_def progressive_builder_def progressive_skills_def plain_env_def)


lemma plain_prompt:
  "build_system_prompt plain_env progressive_builder None
     = Inr (get_identity plain_env progressive_builder)"
  by (simp add: build_system_prompt_eq plain_bootstrap plain_memory plain_progressive_skills)

lemma example_bootstrap:
  "load_bootstrap_files example_env compact_builder = Inr ''## SOUL.md\<newline>\<newline>hi''"
  by (simp add: load_bootstrap_files_def BOOTSTRAP_FILES_def path_exists_def read_text_def
        read_bytes_def example_env_def plain_env_def compact_builder_def)

lemma example_present: "bootstrap_present example_env compact_builder = [''SOUL.md'']"
  by (simp add: bootstrap_present_def BOOTSTRAP_FILES_def path_exists_def example_env_def
        plain_env_def compact_builder_def)

lemma example_compact_skills:
  "skills_parts example_env compact_builder None
     = Inr [''# Skills\<newline>\<newline>Available skills: zeta\<newline>'',
            ''Load details with read_file: /ws/skills/zeta/SKILL.md\<newline>'']"
  by (simp add: skills_parts_def compact_skills_eq chosen_skills_def example_env_def
        plain_env_def compact_builder_def names_line_def load_line_def)

text \<open>The faulty paths and the media files of the examples.\<close>

lemma long_name_neq [simp]:
  "length s < 304 \<Longrightarrow> long_name \<noteq> s" "length s < 304 \<Longrightarrow> s \<noteq> long_name"
  by (auto simp: long_name_def)

lemma plain_guess_type:
  "guess_type plain_env ''//[.png'' = Inl ValueError"
  "guess_type plain_env ''a.png'' = Inr (Some ''image/png'')"
  "guess_type plain_env ''dir.png'' = Inr (Some ''image/png'')"
  "guess_type plain_env ''gone.png'' = Inr (Some ''image/png'')"
  "guess_type plain_env ''locked.png'' = Inr (Some ''image/png'')"
  "guess_type plain_env long_name = Inr (Some ''image/png'')"
  "guess_type plain_env ''b.txt'' = Inr (Some ''text/plain'')"
  "guess_type plain_env ''noext'' = Inr None"
  by (simp_all add: plain_env_def)

lemma example_guess_type:
  "guess_type example_env = guess_type plain_env"
  "guess_type plain_env ''a.png'' = Inr (Some ''image/png'')"
  "guess_type plain_env ''dir.png'' = Inr (Some ''image/png'')"
  "guess_type plain_env ''gone.png'' = Inr (Some ''image/png'')"
  "guess_type plain_env ''b.txt'' = Inr (Some ''text/plain'')"
  "guess_type plain_env ''noext'' = Inr None"
  by (simp_all add: example_env_def plain_guess_type)

lemma example_is_file:
  "is_file example_env (Path ''a.png'') = Inr True"
  "is_file example_env (Path ''dir.png'') = Inr False"
  "is_file example_env (Path ''gone.png'') = Inr False"
  "is_file example_env (Path ''b.txt'') = Inr False"
  "is_file example_env (Path ''noext'') = Inr False"
  by (simp_all add: is_file_def example_env_def)

lemma example_read_bytes:
  "read_bytes example_env (Path ''a.png'') = Inr [77, 97, 110, 77]"
  by (simp add: read_bytes_def example_env_def)

lemma example_media_calls:
  "list_all (path_calls_succeed example_env)
     [''gone.png'', ''a.png'', ''b.txt'', ''dir.png'', ''noext'']"
  by (simp add: path_calls_succeed_def survives_def example_guess_type example_is_file
        example_read_bytes)

lemma example_survivors:
  "filter (survives example_env) [''gone.png'', ''a.png'', ''b.txt'', ''dir.png'', ''noext'']
     = [''a.png'']"
  by (simp add: survives_def example_guess_type example_is_file)

lemma a_png_block:
  "image_block example_env ''a.png''
     = PDict [(''type'', PStr ''image_url''),
              (''image_url'', PDict [(''url'', PStr ''data:image/png;base64,TWFuTQ=='')])]"
  by (simp add: image_block_def example_env_def plain_env_def b64_char_def b64_alphabet_def)

lemma example_encoded:
  "encoded_content example_env text
     (Some [''gone.png'', ''a.png'', ''b.txt'', ''dir.png'', ''noext''])
   = PList [PDict [(''type'', PStr ''image_url''),
                   (''image_url'', PDict [(''url'', PStr ''data:image/png;base64,TWFuTQ=='')])],
            PDict [(''type'', PStr ''text''), (''text'', PStr text)]]"
  unfolding encoded_content_def option.case example_survivors
  by (simp add: a_png_block text_block_def)

lemma faulty_guess_type: "guess_type faulty_env = guess_type plain_env"
  "guess_type plain_env ''//[.png'' = Inl ValueError"
  "guess_type plain_env ''a.png'' = Inr (Some ''image/png'')"
  "guess_type plain_env ''locked.png'' = Inr (Some ''image/png'')"
  "guess_type plain_env long_name = Inr (Some ''image/png'')"
  by (simp_all add: faulty_env_def example_env_def plain_guess_type)

lemma faulty_is_file:
  "is_file faulty_env (Path ''a.png'') = Inr True"
  "is_file faulty_env (Path ''locked.png'') = Inr True"
  "is_file faulty_env (Path long_name) = Inl (OSError 36)"
  by (simp_all add: is_file_def faulty_env_def example_env_def)

lemma faulty_read_bytes:
  "read_bytes faulty_env (Path ''a.png'') = Inr [77, 97, 110, 77]"
  "read_bytes faulty_env (Path ''locked.png'') = Inl PermissionError"
  by (simp_all add: read_bytes_def faulty_env_def example_env_def)

lemma example_progressive_prompt:
  "build_system_prompt example_env progressive_builder None
     = Inr (get_identity example_env progressive_builder
            @ ''\<newline>\<newline>---\<newline>\<newline>## SOUL.md\<newline>\<newline>hi''
            @ ''\<newline>\<newline>---\<newline>\<newline># Memory\<newline>\<newline>likes tea'')"
proof -
  have b: "load_bootstrap_files example_env progressive_builder = Inr ''## SOUL.md\<newline>\<newline>hi''"
    by (simp add: load_bootstrap_files_def BOOTSTRAP_FILES_def path_exists_def read_text_def
          read_bytes_def example_env_def plain_env_def progressive_builder_def)
  have m: "memory_parts example_env = [''# Memory\<newline>\<newline>likes tea'']"
    by (simp add: memory_parts_def example_env_def plain_env_def)
  have s: "skills_parts example_env progressive_builder None = Inr []"
    by (simp add: skills_parts_def progressive_builder_def progressive_skills_def
          example_env_def plain_env_def)
  show ?thesis
    by (simp add: build_system_prompt_eq b m s SEPARATOR_def)
qed

section \<open>The claims\<close>

subsection \<open>Compact skill disclosure\<close>




subsection \<open>The media encoder\<close>

text \<open>
  C2. When no call that the encoder makes on the media list raises (guessing the MIME
  type of every path, the test for a regular file of every path, reading every file that
  passes the filter) and at least one path passes the filter, \<^verbatim>\<open>_build_user_content\<close>
  returns the list of the image blocks of the paths that pass, in the order of the
  input, followed by one text block with the original text; each of these blocks is the
  data URI of the file's guessed MIME type and bytes. A path that is not a regular file,
  or has no guessed MIME type, or one that does not start with \<^verbatim>\<open>image/\<close>, gives no
  block. As the claim is written (every list with a path that passes, every other path
  skipped without an error) it fails when one of the calls raises: see the
  counterexample.
\<close>

theorem build_user_content_images_then_text:
  assumes "list_all (path_calls_succeed env) ms"
    and "filter (survives env) ms \<noteq> []"
  shows "build_user_content env text (Some ms) =
           Inr (PList (map (image_block env) (filter (survives env) ms) @ [text_block text]))
   \<and> (\<forall>path\<in>set (filter (survives env) ms).
         \<exists>mime data. guess_type env path = Inr (Some mime) \<and> prefix ''image/'' mime
           \<and> fs env (Path path) = Some (RegularFile data)
           \<and> image_block env path
               = PDict [(''type'', PStr ''image_url''),
                        (''image_url'',
                         PDict [(''url'',
                                 PStr (''data:'' @ mime @ '';base64,'' @ b64encode data))])])"
proof -
  have "media_calls_succeed env (Some ms)"
    using assms(1) by (simp add: media_calls_succeed_def)
  then have "build_user_content env text (Some ms) = Inr (encoded_content env text (Some ms))"
    by (rule build_user_content_eq)
  moreover have "path_calls_succeed env path" if "path \<in> set ms" for path
    using assms(1) that by (simp add: list_all_iff)
  ultimately show ?thesis
    using assms(2) survivor_block by (simp add: encoded_content_def)
qed

theorem build_user_content_images_then_text_witness:
  "build_user_content example_env ''hello''
     (Some [''gone.png'', ''a.png'', ''b.txt'', ''dir.png'', ''noext''])
   = Inr (PList [PDict [(''type'', PStr ''image_url''),
                        (''image_url'',
                         PDict [(''url'', PStr ''data:image/png;base64,TWFuTQ=='')])],
                 PDict [(''type'', PStr ''text''), (''text'', PStr ''hello'')]])"
proof -
  have ne: "filter (survives example_env)
              [''gone.png'', ''a.png'', ''b.txt'', ''dir.png'', ''noext''] \<noteq> []"
    unfolding example_survivors by simp
  have "build_user_content example_env ''hello''
          (Some [''gone.png'', ''a.png'', ''b.txt'', ''dir.png'', ''noext''])
        = Inr (PList (map (image_block example_env)
                        (filter (survives example_env)
                           [''gone.png'', ''a.png'', ''b.txt'', ''dir.png'', ''noext''])
                      @ [text_block ''hello'']))"
    using build_user_content_images_then_text [OF example_media_calls ne] by blast
  then show ?thesis
    unfolding example_survivors by (simp add: a_png_block text_block_def)
qed

text \<open>
  In each of the three lists \<^verbatim>\<open>a.png\<close> passes the filter, and the encoder raises:
  on the MIME type of \<^verbatim>\<open>//[.png\<close>, on the stat of a name that is too long (a path that
  is not an existing regular file, and is not skipped), on reading a regular image file
  that cannot be read.
\<close>

theorem raising_media_path_counterexample:
  "survives faulty_env ''a.png''
   \<and> build_user_content faulty_env ''hello'' (Some [''//[.png'', ''a.png'']) = Inl ValueError
   \<and> build_user_content faulty_env ''hello'' (Some [long_name, ''a.png'']) = Inl (OSError 36)
   \<and> build_user_content faulty_env ''hello'' (Some [''a.png'', ''locked.png''])
       = Inl PermissionError"
  by (simp add: build_user_content_def faulty_guess_type faulty_is_file faulty_read_bytes
        survives_def)

text \<open>
  C6. When the media argument is absent or empty, or when guessing the MIME type and
  the test for a regular file raise on no path of it and no path passes the filter,
  \<^verbatim>\<open>_build_user_content\<close> returns the original text as a plain string, not a list
  of blocks. As the claim is written (every list without a path that passes) it fails
  when one of the two calls raises: see the counterexample.
\<close>

theorem build_user_content_plain_text:
  assumes "media_calls_succeed env media"
    and "\<forall>ms. media = Some ms \<longrightarrow> (\<forall>path\<in>set ms. \<not> survives env path)"
  shows "build_user_content env text media = Inr (PStr text)"
proof -
  have "encoded_content env text media = PStr text"
  proof (cases media)
    case None
    then show ?thesis by (simp add: encoded_content_def)
  next
    case (Some ms)
    with assms(2) have "filter (survives env) ms = []" by (simp add: filter_empty_conv)
    with Some show ?thesis by (simp add: encoded_content_def)
  qed
  then show ?thesis
    using build_user_content_eq [OF assms(1)] by simp
qed

theorem build_user_content_plain_text_witness:
  "build_user_content example_env ''hello'' (Some [''gone.png'', ''b.txt'', ''dir.png'', ''noext''])
     = Inr (PStr ''hello'')
   \<and> build_user_content example_env ''hello'' (Some []) = Inr (PStr ''hello'')
   \<and> build_user_content example_env ''hello'' None = Inr (PStr ''hello'')"
proof -
  have c: "media_calls_succeed example_env (Some [''gone.png'', ''b.txt'', ''dir.png'', ''noext''])"
    by (simp add: media_calls_succeed_def path_calls_succeed_def survives_def
          example_guess_type example_is_file)
  have n: "\<forall>ms. Some [''gone.png'', ''b.txt'', ''dir.png'', ''noext''] = Some ms
             \<longrightarrow> (\<forall>path\<in>set ms. \<not> survives example_env path)"
    by (simp add: survives_def example_guess_type example_is_file)
  show ?thesis
    using build_user_content_plain_text [OF c n, of "''hello''"]
      build_user_content_plain_text [of example_env "Some []" "''hello''"]
      build_user_content_plain_text [of example_env None "''hello''"]
    by (simp add: media_calls_succeed_def)
qed

text \<open>
  No path of either list passes the filter, and the encoder raises instead of returning
  the text.
\<close>

theorem raising_skipped_path_counterexample:
  "\<not> survives faulty_env long_name
   \<and> build_user_content faulty_env ''hello'' (Some [long_name]) = Inl (OSError 36)
   \<and> \<not> survives plain_env ''//[.png''
   \<and> build_user_content plain_env ''hello'' (Some [''//[.png'']) = Inl ValueError"
  by (simp add: build_user_content_def faulty_guess_type faulty_is_file plain_guess_type
        survives_def)

subsection \<open>The message list\<close>

text \<open>
  C3. When the system prompt is built and no call of the media encoder raises,
  \<^verbatim>\<open>build_messages\<close> returns one system message whose text is that prompt (followed
  by the session footer when there is one), then the messages of \<^verbatim>\<open>history\<close> in
  order and unchanged, then one user message whose content is the media-encoded current
  message: the text itself when the media are absent or no path passes the filter, else
  the image blocks and one text block. As the claim is written (a sequence is returned
  in every case) it fails when the encoder raises: see the counterexample.
\<close>

theorem build_messages_order:
  assumes "build_system_prompt env self skill_names = Inr sp"
    and "media_calls_succeed env media"
  shows "build_messages env self history current_message skill_names media channel chat_id
           = Inr ([PDict [(''role'', PStr ''system''),
                          (''content'', PStr (sp @ session_footer channel chat_id))]]
                  @ history
                  @ [PDict [(''role'', PStr ''user''),
                            (''content'', encoded_content env current_message media)]])"
  using assms(1) build_user_content_eq [OF assms(2), of current_message]
  by (simp add: build_messages_eq system_message_def user_message_def)

theorem build_messages_order_witness:
  "build_messages example_env progressive_builder
     [PDict [(''role'', PStr ''user''), (''content'', PStr ''earlier'')]] ''hello''
     None (Some [''gone.png'', ''a.png'', ''b.txt'', ''dir.png'', ''noext'']) None None
   = Inr [PDict [(''role'', PStr ''system''),
                 (''content'',
                  PStr (get_identity example_env progressive_builder
                        @ ''\<newline>\<newline>---\<newline>\<newline>## SOUL.md\<newline>\<newline>hi''
                        @ ''\<newline>\<newline>---\<newline>\<newline># Memory\<newline>\<newline>likes tea''))],
          PDict [(''role'', PStr ''user''), (''content'', PStr ''earlier'')],
          PDict [(''role'', PStr ''user''),
                 (''content'',
                  PList [PDict [(''type'', PStr ''image_url''),
                                (''image_url'',
                                 PDict [(''url'', PStr ''data:image/png;base64,TWFuTQ=='')])],
                         PDict [(''type'', PStr ''text''), (''text'', PStr ''hello'')]])]]"
proof -
  have c: "media_calls_succeed example_env
             (Some [''gone.png'', ''a.png'', ''b.txt'', ''dir.png'', ''noext''])"
    using example_media_calls by (simp add: media_calls_succeed_def)
  show ?thesis
    using build_messages_order [OF example_progressive_prompt c,
            of "[PDict [(''role'', PStr ''user''), (''content'', PStr ''earlier'')]]"
               "''hello''" None None]
    by (simp add: session_footer_def example_encoded)
qed

text \<open>
  The prompt is built, and \<^verbatim>\<open>build_messages\<close> raises the error of the encoder
  instead of returning a sequence.
\<close>

theorem raising_encoder_counterexample:
  "build_system_prompt plain_env progressive_builder None
     = Inr (get_identity plain_env progressive_builder)
   \<and> build_messages plain_env progressive_builder [] ''hello'' None (Some [''//[.png''])
       None None
     = Inl ValueError"
proof -
  have "build_user_content plain_env ''hello'' (Some [''//[.png'']) = Inl ValueError"
    by (simp add: build_user_content_def plain_guess_type)
  then show ?thesis
    by (simp add: build_messages_eq plain_prompt)
qed

text \<open>
  C4. In \<^verbatim>\<open>build_messages\<close>, when the prompt is built and the encoder returns, the
  text of the system message is the prompt followed by the footer
  \<^verbatim>\<open>## Current Session\<close> with the channel and chat id lines if and only if channel and
  chat id are both given and both non-empty; in every other case it is the prompt alone.
  As the claim is written (both supplied) it fails for a channel that is supplied as the
  empty string: see the counterexample.
\<close>

theorem build_messages_session_footer:
  assumes "build_system_prompt env self skill_names = Inr sp"
    and "build_user_content env current_message media = Inr uc"
  shows "build_messages env self history current_message skill_names media channel chat_id
           = Inr ([PDict [(''role'', PStr ''system''),
                          (''content'', PStr (sp @ session_footer channel chat_id))]]
                  @ history
                  @ [PDict [(''role'', PStr ''user''), (''content'', uc)]])
         \<and> (session_footer channel chat_id \<noteq> []
              \<longleftrightarrow> (\<exists>c i. channel = Some c \<and> c \<noteq> [] \<and> chat_id = Some i \<and> i \<noteq> []))"
proof -
  have f: "session_footer channel chat_id \<noteq> []
              \<longleftrightarrow> (\<exists>c i. channel = Some c \<and> c \<noteq> [] \<and> chat_id = Some i \<and> i \<noteq> [])"
    by (cases channel; cases chat_id) (auto simp: session_footer_def)
  show ?thesis
    using assms f
    by (simp add: build_messages_eq system_message_def user_message_def)
qed

theorem build_messages_session_footer_witness:
  "build_messages plain_env progressive_builder [] ''hello'' None None
     (Some ''telegram'') (Some ''42'')
   = Inr [PDict [(''role'', PStr ''system''),
                 (''content'',
                  PStr (get_identity plain_env progressive_builder
                        @ ''\<newline>\<newline>## Current Session\<newline>Channel: telegram\<newline>Chat ID: 42''))],
          PDict [(''role'', PStr ''user''), (''content'', PStr ''hello'')]]"
proof -
  have u: "build_user_content plain_env ''hello'' None = Inr (PStr ''hello'')"
    by (simp add: build_user_content_def)
  show ?thesis
    using build_messages_session_footer [OF plain_prompt u,
            of "[]" "Some ''telegram''" "Some ''42''"]
    by (simp add: session_footer_def)
qed

text \<open>
  Channel and chat id are both supplied, the channel as the empty string: the system
  message is the prompt alone, without footer.
\<close>

theorem footer_needs_nonempty_counterexample:
  "build_messages plain_env progressive_builder [] ''hello'' None None (Some '''') (Some ''42'')
   = Inr [PDict [(''role'', PStr ''system''),
                 (''content'', PStr (get_identity plain_env progressive_builder))],
          PDict [(''role'', PStr ''user''), (''content'', PStr ''hello'')]]"
  by (simp add: build_messages_eq plain_prompt session_footer_def system_message_def
        user_message_def build_user_content_def)

subsection \<open>Determinism of the prompt\<close>

text \<open>
  C5. Two calls of \<^verbatim>\<open>build_system_prompt\<close> with the same arguments give the same
  result when the two environments agree on the bootstrap files of the workspace, on the
  answers of the memory store and of the skills loader, and also on the clock reading,
  the time zone name, the platform and interpreter description and the resolved
  workspace path, which the identity block prints. As the claim is written (files, memory
  and skills unchanged) it fails when the minute of the clock changes between the calls:
  see the counterexample.
\<close>

theorem build_system_prompt_deterministic:
  assumes "now e1 = now e2" and "tzname e1 = tzname e2"
    and "platform_system e1 = platform_system e2"
    and "platform_machine e1 = platform_machine e2"
    and "python_version e1 = python_version e2"
    and "resolve e1 (workspace self) = resolve e2 (workspace self)"
    and "\<forall>f\<in>set BOOTSTRAP_FILES.
           fs e1 (Child (workspace self) f) = fs e2 (Child (workspace self) f)"
    and "utf8_decode e1 = utf8_decode e2"
    and "get_memory_context e1 = get_memory_context e2"
    and "list_skills e1 = list_skills e2"
    and "get_always_skills e1 = get_always_skills e2"
    and "load_skills_for_context e1 (get_always_skills e1)
           = load_skills_for_context e2 (get_always_skills e2)"
    and "build_skills_summary e1 = build_skills_summary e2"
  shows "build_system_prompt e1 self skill_names = build_system_prompt e2 self skill_names"
proof -
  have i: "get_identity e1 self = get_identity e2 self"
    using assms(1-6) by (simp add: get_identity_def)
  have b: "load_bootstrap_files e1 self = load_bootstrap_files e2 self"
    using bootstrap_loop_cong [OF assms(7,8)] by (simp add: load_bootstrap_files_def)
  have m: "memory_parts e1 = memory_parts e2"
    using assms(9) by (simp add: memory_parts_def)
  have c: "compact_skills e1 self skill_names [] = compact_skills e2 self skill_names []"
    unfolding compact_skills_eq chosen_skills_def assms(6) assms(10) by (rule refl)
  have a: "load_skills_for_context e1 (get_always_skills e2)
             = load_skills_for_context e2 (get_always_skills e2)"
    using assms(11,12) by simp
  have p: "progressive_skills e1 [] = progressive_skills e2 []"
    unfolding progressive_skills_def Let_def assms(11) a assms(13) by (rule refl)
  have s: "skills_parts e1 self skill_names = skills_parts e2 self skill_names"
    using c p by (simp add: skills_parts_def)
  show ?thesis
    unfolding build_system_prompt_eq i b m s by (rule refl)
qed

theorem build_system_prompt_deterministic_witness:
  "build_system_prompt example_env compact_builder None
     = build_system_prompt other_media_env compact_builder None
   \<and> fs example_env \<noteq> fs other_media_env"
proof -
  have "build_system_prompt example_env compact_builder None
     = build_system_prompt other_media_env compact_builder None"
    by (rule build_system_prompt_deterministic)
       (simp_all add: other_media_env_def BOOTSTRAP_FILES_def compact_builder_def)
  moreover have "fs example_env (Path ''a.png'') \<noteq> fs other_media_env (Path ''a.png'')"
    by (simp add: other_media_env_def example_env_def)
  ultimately show ?thesis by metis
qed

text \<open>
  The same arguments, the same files, memory and skills, one minute later: another prompt.
\<close>

theorem clock_changes_prompt_counterexample:
  "build_system_prompt plain_env progressive_builder None
     \<noteq> build_system_prompt later_env progressive_builder None
   \<and> fs later_env = fs plain_env
   \<and> utf8_decode later_env = utf8_decode plain_env
   \<and> get_memory_context later_env = get_memory_context plain_env
   \<and> list_skills later_env = list_skills plain_env
   \<and> get_always_skills later_env = get_always_skills plain_env
   \<and> load_skills_for_context later_env = load_skills_for_context plain_env
   \<and> build_skills_summary later_env = build_skills_summary plain_env"
proof -
  have l: "build_system_prompt later_env progressive_builder None
             = Inr (get_identity later_env progressive_builder)"
    by (simp add: build_system_prompt_eq load_bootstrap_files_def BOOTSTRAP_FILES_def
        path_exists_def later_env_def plain_env_def skills_parts_def progressive_builder_def
        progressive_skills_def memory_parts_def Let_def)
  have "get_identity plain_env progressive_builder \<noteq> get_identity later_env progressive_builder"
    by (simp add: get_identity_def later_env_def plain_env_def)
  then show ?thesis
    by (simp add: l plain_prompt) (simp add: later_env_def)
qed

subsection \<open>Message mutators\<close>

text \<open>
  C7. \<^verbatim>\<open>add_assistant_message\<close> appends one message with role \<^verbatim>\<open>assistant\<close>. Its
  \<^verbatim>\<open>content\<close> field is always present and is the empty string when the argument is
  absent; \<^verbatim>\<open>tool_calls\<close> is present exactly when the argument is a non-empty list, and
  \<^verbatim>\<open>reasoning_content\<close> exactly when the argument is a non-empty string, and then each
  carries the argument unchanged. The messages before it are kept.
\<close>

theorem add_assistant_message_fields:
  "\<exists>msg. add_assistant_message messages content tool_calls reasoning_content
            = messages @ [PDict msg]
     \<and> map_of msg ''role'' = Some (PStr ''assistant'')
     \<and> map_of msg ''content''
         = Some (PStr (case content of None \<Rightarrow> '''' | Some c \<Rightarrow> c))
     \<and> map_of msg ''tool_calls''
         = (case tool_calls of
              None \<Rightarrow> None
            | Some tc \<Rightarrow> if tc = [] then None else Some (PList tc))
     \<and> map_of msg ''reasoning_content''
         = (case reasoning_content of
              None \<Rightarrow> None
            | Some r \<Rightarrow> if r = [] then None else Some (PStr r))
     \<and> distinct (map fst msg)
     \<and> set (map fst msg) \<subseteq> {''role'', ''content'', ''tool_calls'', ''reasoning_content''}"
  by (cases content; cases tool_calls; cases reasoning_content)
     (auto simp: add_assistant_message_def Let_def)

theorem add_assistant_message_fields_witness:
  "add_assistant_message [] (Some ''hi'') None (Some ''think'')
     = [PDict [(''role'', PStr ''assistant''), (''content'', PStr ''hi''),
               (''reasoning_content'', PStr ''think'')]]
   \<and> add_assistant_message [] None (Some []) (Some '''')
     = [PDict [(''role'', PStr ''assistant''), (''content'', PStr '''')]]"
  using add_assistant_message_fields [of "[]" "Some ''hi''" None "Some ''think''"]
  by (simp add: add_assistant_message_def)

subsection \<open>Bootstrap files and the identity block\<close>

text \<open>
  C8. The bootstrap loader goes through \<^verbatim>\<open>AGENTS.md\<close>, \<^verbatim>\<open>SOUL.md\<close>, \<^verbatim>\<open>USER.md\<close>
  in this order. When every one of them that exists under the workspace can be read as
  text, the result is the sections of those that exist, in order, each the header
  \<^verbatim>\<open>## <filename>\<close>, an empty line and the content of the file, joined by an empty
  line. The result is the empty string exactly when none of the three exists, and then
  \<^verbatim>\<open>build_system_prompt\<close> has no bootstrap part: its parts are the identity block,
  the memory part and the skills parts.
\<close>

theorem bootstrap_sections:
  assumes "\<forall>f\<in>set BOOTSTRAP_FILES.
             path_exists env (Child (workspace self) f)
               \<longrightarrow> (\<exists>c. read_text env (Child (workspace self) f) = Inr c)"
  shows "BOOTSTRAP_FILES = [''AGENTS.md'', ''SOUL.md'', ''USER.md'']
   \<and> load_bootstrap_files env self
       = Inr (join ''\<newline>\<newline>'' (map (bootstrap_section env self) (bootstrap_present env self)))
   \<and> (load_bootstrap_files env self = Inr [] \<longleftrightarrow> bootstrap_present env self = [])
   \<and> (bootstrap_present env self = [] \<longrightarrow>
        (\<forall>sk. skills_parts env self skill_names = Inr sk \<longrightarrow>
           build_system_prompt env self skill_names
             = Inr (join SEPARATOR (get_identity env self # memory_parts env @ sk))))"
proof -
  have l: "load_bootstrap_files env self
       = Inr (join ''\<newline>\<newline>'' (map (bootstrap_section env self) (bootstrap_present env self)))"
    by (rule load_bootstrap_files_eq [OF assms])
  have e: "load_bootstrap_files env self = Inr [] \<longleftrightarrow> bootstrap_present env self = []"
    by (simp add: l join_sections_empty_iff)
  have p: "bootstrap_present env self = [] \<longrightarrow>
        (\<forall>sk. skills_parts env self skill_names = Inr sk \<longrightarrow>
           build_system_prompt env self skill_names
             = Inr (join SEPARATOR (get_identity env self # memory_parts env @ sk)))"
    using e by (auto simp: build_system_prompt_eq)
  show ?thesis using l e p by (simp add: BOOTSTRAP_FILES_def)
qed

theorem bootstrap_sections_witness:
  "load_bootstrap_files example_env compact_builder = Inr ''## SOUL.md\<newline>\<newline>hi''
   \<and> load_bootstrap_files plain_env compact_builder = Inr ''''
   \<and> build_system_prompt plain_env progressive_builder None
       = Inr (get_identity plain_env progressive_builder)"
proof -
  have r: "\<forall>f\<in>set BOOTSTRAP_FILES.
             path_exists example_env (Child (workspace compact_builder) f)
               \<longrightarrow> (\<exists>c. read_text example_env (Child (workspace compact_builder) f) = Inr c)"
    by (simp add: BOOTSTRAP_FILES_def path_exists_def read_text_def read_bytes_def
          example_env_def plain_env_def compact_builder_def)
  have s: "bootstrap_section example_env compact_builder ''SOUL.md'' = ''## SOUL.md\<newline>\<newline>hi''"
    by (simp add: bootstrap_section_def read_text_def read_bytes_def example_env_def
          plain_env_def compact_builder_def)
  have a: "load_bootstrap_files example_env compact_builder = Inr ''## SOUL.md\<newline>\<newline>hi''"
    using bootstrap_sections [OF r, of None] by (simp add: example_present s)
  have n: "\<forall>f\<in>set BOOTSTRAP_FILES.
             path_exists plain_env (Child (workspace self) f)
               \<longrightarrow> (\<exists>c. read_text plain_env (Child (workspace self) f) = Inr c)" for self
    by (simp add: BOOTSTRAP_FILES_def path_exists_def plain_env_def)
  have pp: "bootstrap_present plain_env self = []" for self
    by (simp add: bootstrap_present_def BOOTSTRAP_FILES_def path_exists_def plain_env_def)
  have b: "load_bootstrap_files plain_env compact_builder = Inr ''''"
    using bootstrap_sections [OF n, of compact_builder] by (simp add: pp)
  have c: "build_system_prompt plain_env progressive_builder None
       = Inr (get_identity plain_env progressive_builder)"
    using bootstrap_sections [OF n, of progressive_builder None] plain_progressive_skills
    by (simp add: pp plain_memory)
  show ?thesis using a b c by simp
qed

text \<open>
  C9. Whatever \<^verbatim>\<open>build_system_prompt\<close> returns is non-empty and begins with the
  identity block; when the bootstrap text, the memory text and the skills parts are all
  empty it returns exactly the identity block, with no separator.
\<close>

theorem prompt_begins_with_identity:
  "(\<forall>out. build_system_prompt env self skill_names = Inr out
           \<longrightarrow> out \<noteq> [] \<and> prefix (get_identity env self) out)
   \<and> (load_bootstrap_files env self = Inr [] \<and> get_memory_context env = []
        \<and> skills_parts env self skill_names = Inr []
      \<longrightarrow> build_system_prompt env self skill_names = Inr (get_identity env self))"
proof -
  have "out \<noteq> [] \<and> prefix (get_identity env self) out"
    if "build_system_prompt env self skill_names = Inr out" for out
  proof -
    from that obtain rest where "out = join SEPARATOR (get_identity env self # rest)"
      by (auto simp: build_system_prompt_eq split: sum.splits)
    then show ?thesis
      by (simp add: prefix_join join_Cons_nonempty get_identity_nonempty)
  qed
  moreover have "build_system_prompt env self skill_names = Inr (get_identity env self)"
    if "load_bootstrap_files env self = Inr [] \<and> get_memory_context env = []
        \<and> skills_parts env self skill_names = Inr []"
    using that by (simp add: build_system_prompt_eq memory_parts_def)
  ultimately show ?thesis by blast
qed

theorem prompt_begins_with_identity_witness:
  "build_system_prompt plain_env progressive_builder None
     = Inr (get_identity plain_env progressive_builder)
   \<and> get_identity plain_env progressive_builder \<noteq> []
   \<and> (\<exists>out. build_system_prompt example_env compact_builder None = Inr out
         \<and> out \<noteq> [] \<and> prefix (get_identity example_env compact_builder) out)"
proof -
  have m: "get_memory_context plain_env = []" by (simp add: plain_env_def)
  have a: "build_system_prompt plain_env progressive_builder None
     = Inr (get_identity plain_env progressive_builder)"
    using prompt_begins_with_identity [of plain_env progressive_builder None]
      plain_bootstrap [of progressive_builder] plain_progressive_skills m by blast
  have b: "get_identity plain_env progressive_builder \<noteq> []"
    using prompt_begins_with_identity [of plain_env progressive_builder None] a by auto
  obtain out where o: "build_system_prompt example_env compact_builder None = Inr out"
    by (auto simp: build_system_prompt_eq example_bootstrap example_compact_skills)
  have c: "out \<noteq> [] \<and> prefix (get_identity example_env compact_builder) out"
    using prompt_begins_with_identity [of example_env compact_builder None] o by blast
  show ?thesis using a b c o by blast
qed

subsection \<open>An explicit empty skill list\<close>



end
